theory Spec2Isabelle
  imports Main
begin

unbundle bit_operations_syntax

section \<open>The setup sequencer of scripts/setup.py\<close>

text \<open>
  The script has two functions. \<open>run_command\<close> launches one shell command with
  \<open>subprocess.run\<close> and turns what happened into \<open>True\<close> or \<open>False\<close>;
  \<open>main\<close> checks two directories for a \<open>package.json\<close>, runs three commands in
  the first and two in the second, accumulates the results with \<open>&=\<close> and ends either
  by printing the next steps or by \<open>sys.exit(1)\<close>.

  Everything the script does is an interaction with the operating system, so the model is a
  program over an abstract world \<open>'w\<close>: each function takes the world and returns its
  result, the new world and the list of events it produced, in order.
\<close>

subsection \<open>Python values\<close>

text \<open>
  \<open>success\<close> is a Python object. \<open>bool\<close> is a subclass of \<open>int\<close>, and \<open>&\<close>
  between two objects that are both \<open>bool\<close> gives a \<open>bool\<close> (the bitwise and of the two
  integers 0 or 1, compared with 0); in every other case it is the bitwise and of integers
  and gives an \<open>int\<close>.
\<close>

datatype pyval = PyBool bool | PyInt int

fun int_of :: "pyval \<Rightarrow> int" where
  "int_of (PyBool b) = (if b then 1 else 0)"
| "int_of (PyInt i) = i"

text \<open>The truth value tested by \<open>if success:\<close>.\<close>

fun truthy :: "pyval \<Rightarrow> bool" where
  "truthy (PyBool b) = b"
| "truthy (PyInt i) = (i \<noteq> 0)"

fun py_and :: "pyval \<Rightarrow> pyval \<Rightarrow> pyval" where
  "py_and (PyBool a) (PyBool b) = PyBool ((int_of (PyBool a) AND int_of (PyBool b)) \<noteq> 0)"
| "py_and x y = PyInt (int_of x AND int_of y)"

subsection \<open>Exceptions, paths and the operating system\<close>

text \<open>
  Two kinds of exception occur: instances of \<open>Exception\<close> (with their text \<open>str(e)\<close>),
  which is what \<open>except Exception as e\<close> catches, and \<open>SystemExit\<close>, raised by
  \<open>sys.exit\<close>, which is not an instance of \<open>Exception\<close>.
\<close>

datatype py_exn = PyException string | SystemExit int

text \<open>A \<open>pathlib.Path\<close> is the list of its parts; \<open>p / name\<close> appends one part.\<close>

type_synonym path = "string list"

definition joinpath :: "path \<Rightarrow> string \<Rightarrow> path" where
  "joinpath p name = p @ [name]"

text \<open>
  \<open>subprocess.run(cmd, shell=True, cwd=cwd, capture_output=True, text=True)\<close> is a
  blocking call that either returns a \<open>CompletedProcess\<close>, of which the script reads
  \<open>returncode\<close> and \<open>stderr\<close> (a decoded text), or raises. What it raises itself
  (\<open>OSError\<close> when the process cannot be created, \<open>UnicodeDecodeError\<close> when the
  captured output cannot be decoded, \<open>ValueError\<close>, \<open>SubprocessError\<close>) is an instance
  of \<open>Exception\<close>; \<open>Raised\<close> carries its text. How the outcome comes from what the child
  did is the subject of the host model further down. A signal that interrupts the script
  from outside while it waits is not a result of the call and is not part of this model.
\<close>

datatype run_outcome = CompletedProcess int string | Raised string

text \<open>
  The operating system, as far as the script uses it: \<open>Path.exists\<close> reads the world,
  \<open>subprocess.run\<close> reads and changes it.
\<close>

record 'w os =
  path_exists :: "path \<Rightarrow> 'w \<Rightarrow> bool"
  subprocess_run :: "string \<Rightarrow> path option \<Rightarrow> 'w \<Rightarrow> run_outcome \<times> 'w"

text \<open>
  The events of a run: a line written by \<open>print\<close>, a call of \<open>Path.exists\<close> with its
  answer, a call of \<open>subprocess.run\<close> with its arguments and what came of it, and a
  \<open>return\<close> of \<open>run_command\<close> with the value returned.
\<close>

datatype event =
    Print string
  | Exists path bool
  | Run string "path option" run_outcome
  | Return pyval

type_synonym ('w, 'a) prog = "'w \<Rightarrow> (py_exn + 'a) \<times> 'w \<times> event list"

definition preturn :: "'a \<Rightarrow> ('w, 'a) prog" where
  "preturn a w = (Inr a, w, [])"

definition praise :: "py_exn \<Rightarrow> ('w, 'a) prog" where
  "praise e w = (Inl e, w, [])"

text \<open>Sequencing: an exception of the first part skips the second.\<close>

definition pbind :: "('w, 'a) prog \<Rightarrow> ('a \<Rightarrow> ('w, 'b) prog) \<Rightarrow> ('w, 'b) prog" where
  "pbind m f w =
     (case m w of
        (Inl e, w1, t1) \<Rightarrow> (Inl e, w1, t1)
      | (Inr a, w1, t1) \<Rightarrow> (case f a w1 of (r, w2, t2) \<Rightarrow> (r, w2, t1 @ t2)))"

text \<open>\<open>try: body except Exception as e: handler\<close>: only an instance of \<open>Exception\<close> is caught.\<close>

definition try_except_Exception ::
    "('w, 'a) prog \<Rightarrow> (string \<Rightarrow> ('w, 'a) prog) \<Rightarrow> ('w, 'a) prog" where
  "try_except_Exception body handler w =
     (case body w of
        (Inl (PyException e), w1, t1) \<Rightarrow> (case handler e w1 of (r, w2, t2) \<Rightarrow> (r, w2, t1 @ t2))
      | (Inl (SystemExit n), w1, t1) \<Rightarrow> (Inl (SystemExit n), w1, t1)
      | (Inr a, w1, t1) \<Rightarrow> (Inr a, w1, t1))"

text \<open>
  \<open>print\<close> adds one line to the output. Here writing to standard output succeeds and
  \<open>Path.exists\<close> answers: this first model is of the runs in which they do. The host
  model further down has a \<open>print\<close> that can raise.
\<close>

definition print_line :: "string \<Rightarrow> ('w, unit) prog" where
  "print_line l w = (Inr (), w, [Print l])"

definition exists_call :: "'w os \<Rightarrow> path \<Rightarrow> ('w, bool) prog" where
  "exists_call os p w = (Inr (path_exists os p w), w, [Exists p (path_exists os p w)])"

definition subprocess_call :: "'w os \<Rightarrow> string \<Rightarrow> path option \<Rightarrow> ('w, int \<times> string) prog" where
  "subprocess_call os cmd cwd w =
     (case subprocess_run os cmd cwd w of
        (CompletedProcess returncode stderr, w1) \<Rightarrow>
          (Inr (returncode, stderr), w1, [Run cmd cwd (CompletedProcess returncode stderr)])
      | (Raised e, w1) \<Rightarrow> (Inl (PyException e), w1, [Run cmd cwd (Raised e)]))"

definition return_value :: "pyval \<Rightarrow> ('w, pyval) prog" where
  "return_value v w = (Inr v, w, [Return v])"

subsection \<open>The text the script prints\<close>

text \<open>
  Strings are the bytes of their UTF-8 encoding; the symbols of the script that are not
  ASCII are written out byte by byte.
\<close>

definition newline :: string where "newline = [CHR 0x0A]"
definition check_mark :: string where "check_mark = [CHR 0xE2, CHR 0x9C, CHR 0x85]"
definition cross_mark :: string where "cross_mark = [CHR 0xE2, CHR 0x9D, CHR 0x8C]"
definition rocket :: string where "rocket = [CHR 0xF0, CHR 0x9F, CHR 0x9A, CHR 0x80]"
definition package :: string where "package = [CHR 0xF0, CHR 0x9F, CHR 0x93, CHR 0xA6]"
definition test_tube :: string where "test_tube = [CHR 0xF0, CHR 0x9F, CHR 0xA7, CHR 0xAA]"
definition hammer :: string where "hammer = [CHR 0xF0, CHR 0x9F, CHR 0x94, CHR 0xA8]"
definition palette :: string where "palette = [CHR 0xF0, CHR 0x9F, CHR 0x8E, CHR 0xA8]"
definition party :: string where "party = [CHR 0xF0, CHR 0x9F, CHR 0x8E, CHR 0x89]"
definition book :: string where "book = [CHR 0xF0, CHR 0x9F, CHR 0x93, CHR 0x96]"
definition warning_sign :: string where
  "warning_sign = [CHR 0xE2, CHR 0x9A, CHR 0xA0, CHR 0xEF, CHR 0xB8, CHR 0x8F]"

definition banner :: string where
  "banner = rocket @ '' Setting up Oasis Hub development environment...''"

definition backend_warning :: string where
  "backend_warning = warning_sign @ ''  Backend directory not found or missing package.json''"

definition frontend_warning :: string where
  "frontend_warning = warning_sign @ ''  Frontend directory not found or missing package.json''"

text \<open>The lines of the success branch of \<open>main\<close>, and the line of its failure branch.\<close>

definition guidance :: "string list" where
  "guidance =
     [newline @ party @ '' Setup completed successfully!'',
      newline @ book @ '' Next steps:'',
      ''1. Backend: cd backend && npm run dev'',
      ''2. Frontend: cd frontend && npm run dev'',
      ''3. Configure .env files for optional integrations'']"

definition error_summary :: string where
  "error_summary = newline @ cross_mark @ '' Setup encountered some errors''"

subsection \<open>run_command\<close>

text \<open>
  Lines 10 to 30. The whole body is inside the \<open>try\<close>; both \<open>return\<close> statements of the
  body and the one of the handler return a \<open>bool\<close>.
\<close>

definition run_command :: "'w os \<Rightarrow> string \<Rightarrow> path option \<Rightarrow> ('w, pyval) prog" where
  "run_command os cmd cwd =
     try_except_Exception
       (pbind (print_line (''Running: '' @ cmd)) (\<lambda>_.
        pbind (subprocess_call os cmd cwd) (\<lambda>(returncode, stderr).
          if returncode = 0 then
            pbind (print_line (check_mark @ '' '' @ cmd)) (\<lambda>_.
            return_value (PyBool True))
          else
            pbind (print_line (cross_mark @ '' '' @ cmd)) (\<lambda>_.
            pbind (print_line (''Error: '' @ stderr)) (\<lambda>_.
            return_value (PyBool False))))))
       (\<lambda>e.
        pbind (print_line (cross_mark @ '' '' @ cmd @ '' - Exception: '' @ e)) (\<lambda>_.
        return_value (PyBool False)))"

subsection \<open>main\<close>

text \<open>
  \<open>d.exists() and (d / "package.json").exists()\<close>: the second call is made only when the
  first answered \<open>True\<close>.
\<close>

definition has_manifest :: "'w os \<Rightarrow> path \<Rightarrow> ('w, bool) prog" where
  "has_manifest os dir =
     pbind (exists_call os dir) (\<lambda>d.
       if d then exists_call os (joinpath dir ''package.json'') else preturn False)"

text \<open>The statement \<open>success &= run_command(cmd, dir)\<close>; its value is the new \<open>success\<close>.\<close>

definition and_run_command :: "'w os \<Rightarrow> pyval \<Rightarrow> string \<Rightarrow> path \<Rightarrow> ('w, pyval) prog" where
  "and_run_command os success cmd dir =
     pbind (run_command os cmd (Some dir)) (\<lambda>r. preturn (py_and success r))"

text \<open>Lines 43 to 53: the backend block. Its value is \<open>success\<close> after the block.\<close>

definition backend_unit :: "'w os \<Rightarrow> path \<Rightarrow> pyval \<Rightarrow> ('w, pyval) prog" where
  "backend_unit os backend_dir success =
     pbind (has_manifest os backend_dir) (\<lambda>present.
       if present then
         pbind (print_line (newline @ package @ '' Installing backend dependencies...'')) (\<lambda>_.
         pbind (and_run_command os success ''npm install'' backend_dir) (\<lambda>success.
         pbind (print_line (newline @ test_tube @ '' Running backend tests...'')) (\<lambda>_.
         pbind (and_run_command os success ''npm test -- --run'' backend_dir) (\<lambda>success.
         pbind (print_line (newline @ hammer @ '' Building backend...'')) (\<lambda>_.
         and_run_command os success ''npm run build'' backend_dir)))))
       else
         pbind (print_line backend_warning) (\<lambda>_. preturn success))"

text \<open>Lines 56 to 63: the frontend block.\<close>

definition frontend_unit :: "'w os \<Rightarrow> path \<Rightarrow> pyval \<Rightarrow> ('w, pyval) prog" where
  "frontend_unit os frontend_dir success =
     pbind (has_manifest os frontend_dir) (\<lambda>present.
       if present then
         pbind (print_line (newline @ palette @ '' Installing frontend dependencies...'')) (\<lambda>_.
         pbind (and_run_command os success ''npm install'' frontend_dir) (\<lambda>success.
         pbind (print_line (newline @ hammer @ '' Building frontend...'')) (\<lambda>_.
         and_run_command os success ''npm run build'' frontend_dir)))
       else
         pbind (print_line frontend_warning) (\<lambda>_. preturn success))"

text \<open>
  Lines 36 to 63: the two blocks, from \<open>success = True\<close>. Its value is \<open>success\<close> as line 65
  tests it. \<open>project_root\<close> is \<open>Path(__file__).parent.parent\<close>, a parameter here.
\<close>

definition run_units :: "'w os \<Rightarrow> path \<Rightarrow> ('w, pyval) prog" where
  "run_units os project_root =
     (let backend_dir = joinpath project_root ''backend'';
          frontend_dir = joinpath project_root ''frontend'';
          success = PyBool True
      in pbind (backend_unit os backend_dir success) (\<lambda>success.
         frontend_unit os frontend_dir success))"

text \<open>Lines 65 to 73.\<close>

definition finish :: "pyval \<Rightarrow> ('w, unit) prog" where
  "finish success =
     (if truthy success then
        pbind (print_line (guidance ! 0)) (\<lambda>_.
        pbind (print_line (guidance ! 1)) (\<lambda>_.
        pbind (print_line (guidance ! 2)) (\<lambda>_.
        pbind (print_line (guidance ! 3)) (\<lambda>_.
        print_line (guidance ! 4)))))
      else
        pbind (print_line error_summary) (\<lambda>_. praise (SystemExit 1)))"

definition main :: "'w os \<Rightarrow> path \<Rightarrow> ('w, unit) prog" where
  "main os project_root =
     pbind (print_line banner) (\<lambda>_.
     pbind (run_units os project_root) finish)"

text \<open>
  The exit status of the process that runs \<open>main()\<close> as its last statement: 0 when
  \<open>main\<close> returns, the argument of \<open>sys.exit\<close> when it is a small number, 1 with a
  traceback for any other exception.
\<close>

fun exit_status :: "py_exn + unit \<Rightarrow> int" where
  "exit_status (Inr _) = 0"
| "exit_status (Inl (SystemExit n)) = n mod 256"
| "exit_status (Inl (PyException _)) = 1"

subsection \<open>Reading a list of events\<close>

fun printed :: "event \<Rightarrow> string list" where
  "printed (Print l) = [l]"
| "printed _ = []"

fun launch :: "event \<Rightarrow> (string \<times> path option) list" where
  "launch (Run cmd cwd _) = [(cmd, cwd)]"
| "launch _ = []"

fun returned :: "event \<Rightarrow> pyval list" where
  "returned (Return v) = [v]"
| "returned _ = []"

text \<open>The lines printed, the commands launched with their directories, and the values
  returned by \<open>run_command\<close>, each in order.\<close>

definition prints :: "event list \<Rightarrow> string list" where
  "prints t = concat (map printed t)"

definition launched :: "event list \<Rightarrow> (string \<times> path option) list" where
  "launched t = concat (map launch t)"

definition results :: "event list \<Rightarrow> pyval list" where
  "results t = concat (map returned t)"

text \<open>The commands launched in one directory.\<close>

definition launched_in :: "path \<Rightarrow> event list \<Rightarrow> string list" where
  "launched_in dir t = map fst (filter (\<lambda>(cmd, cwd). cwd = Some dir) (launched t))"

fun answer :: "event \<Rightarrow> (path \<times> bool) list" where
  "answer (Exists p a) = [(p, a)]"
| "answer _ = []"

text \<open>The paths asked for, each with the answer of \<open>Path.exists\<close>, in order.\<close>

definition answers :: "event list \<Rightarrow> (path \<times> bool) list" where
  "answers t = concat (map answer t)"

text \<open>
  What a run found out about a directory: the manifest is seen when both calls of
  \<open>exists\<close> answered \<open>True\<close>, and missing when one of them answered \<open>False\<close>.
\<close>

definition manifest_seen :: "path \<Rightarrow> event list \<Rightarrow> bool" where
  "manifest_seen dir t =
     ((dir, True) \<in> set (answers t) \<and> (joinpath dir ''package.json'', True) \<in> set (answers t))"

definition manifest_missing :: "path \<Rightarrow> event list \<Rightarrow> bool" where
  "manifest_missing dir t =
     ((dir, False) \<in> set (answers t) \<or> (joinpath dir ''package.json'', False) \<in> set (answers t))"

text \<open>
  The answers of the test of one directory: one question when the directory is absent, two
  otherwise.
\<close>

definition manifest_answers :: "path \<Rightarrow> bool \<Rightarrow> bool \<Rightarrow> (path \<times> bool) list" where
  "manifest_answers dir d m =
     (if d then [(dir, True), (joinpath dir ''package.json'', m)] else [(dir, False)])"

text \<open>The lines that only \<open>main\<close> itself prints outside its steps' headers.\<close>

definition final_line :: "string \<Rightarrow> bool" where
  "final_line l =
     (l \<in> set guidance \<or> l = error_summary \<or> l = backend_warning \<or> l = frontend_warning)"

text \<open>The list of events of a run, out of the triple a program returns.\<close>

definition trace_of :: "(py_exn + 'a) \<times> 'w \<times> event list \<Rightarrow> event list" where
  "trace_of r = snd (snd r)"

text \<open>
  The aggregate as the specification words it: the logical and of the flags of the steps,
  folded from the left, starting from true.
\<close>

definition fold_and :: "bool list \<Rightarrow> bool" where
  "fold_and flags = foldl (\<and>) True flags"

subsection \<open>A scripted operating system\<close>

text \<open>
  For concrete runs: the world is the list of the paths that exist and the list of the
  outcomes the next calls of \<open>subprocess.run\<close> will have (exit code 0 with no error text
  once the list is used up).
\<close>

record world =
  files :: "path list"
  pending :: "run_outcome list"

definition scripted :: "world os" where
  "scripted =
     \<lparr>path_exists = (\<lambda>p w. p \<in> set (files w)),
      subprocess_run = (\<lambda>cmd cwd w.
        case pending w of
          [] \<Rightarrow> (CompletedProcess 0 [], w)
        | out # rest \<Rightarrow> (out, w\<lparr>pending := rest\<rparr>))\<rparr>"

subsection \<open>The host under \<open>subprocess.run\<close> and \<open>print\<close>\<close>

text \<open>
  One level below the operating system above. \<open>subprocess.run\<close> with \<open>capture_output\<close>
  and \<open>text=True\<close> starts a child, waits for it and then decodes what the child wrote, first
  its standard output and then its standard error, with the codec of the locale; decoding
  is strict, so bytes the codec does not accept make \<open>subprocess.run\<close> raise
  \<open>UnicodeDecodeError\<close> after the child has exited. A child is either not started (with
  the text of the \<open>OSError\<close>) or has exited with a code and the bytes of its two streams.
  \<open>print\<close> encodes the line for standard output and writes it; it raises when the line
  cannot be encoded or written (\<open>UnicodeEncodeError\<close>, \<open>OSError\<close>), and then nothing is
  printed. All these exceptions are instances of \<open>Exception\<close>.
\<close>

datatype child = Exited int string string | NotStarted string

record 'w host =
  spawn :: "string \<Rightarrow> path option \<Rightarrow> 'w \<Rightarrow> child \<times> 'w"
  decode :: "string \<Rightarrow> string + string"
  stdout_error :: "string \<Rightarrow> 'w \<Rightarrow> string option"

text \<open>\<open>subprocess.run\<close> on a host: what the script gets for what the child did.\<close>

definition run_text :: "'w host \<Rightarrow> string \<Rightarrow> path option \<Rightarrow> 'w \<Rightarrow> run_outcome \<times> 'w" where
  "run_text h cmd cwd w =
     (case spawn h cmd cwd w of
        (NotStarted e, w1) \<Rightarrow> (Raised e, w1)
      | (Exited returncode out err, w1) \<Rightarrow>
          (case decode h out of
             Inl e \<Rightarrow> (Raised e, w1)
           | Inr stdout \<Rightarrow>
               (case decode h err of
                  Inl e \<Rightarrow> (Raised e, w1)
                | Inr stderr \<Rightarrow> (CompletedProcess returncode stderr, w1))))"

definition print_io :: "'w host \<Rightarrow> string \<Rightarrow> ('w, unit) prog" where
  "print_io h l w =
     (case stdout_error h l w of
        None \<Rightarrow> (Inr (), w, [Print l])
      | Some e \<Rightarrow> (Inl (PyException e), w, []))"

definition subprocess_io :: "'w host \<Rightarrow> string \<Rightarrow> path option \<Rightarrow> ('w, int \<times> string) prog" where
  "subprocess_io h cmd cwd w =
     (case run_text h cmd cwd w of
        (CompletedProcess returncode stderr, w1) \<Rightarrow>
          (Inr (returncode, stderr), w1, [Run cmd cwd (CompletedProcess returncode stderr)])
      | (Raised e, w1) \<Rightarrow> (Inl (PyException e), w1, [Run cmd cwd (Raised e)]))"

text \<open>
  Lines 10 to 30 again, on a host: the same statements in the same order, with a \<open>print\<close>
  that can raise. The \<open>print\<close> of the handler, line 29, is inside no \<open>try\<close>.
\<close>

definition run_command_io :: "'w host \<Rightarrow> string \<Rightarrow> path option \<Rightarrow> ('w, pyval) prog" where
  "run_command_io h cmd cwd =
     try_except_Exception
       (pbind (print_io h (''Running: '' @ cmd)) (\<lambda>_.
        pbind (subprocess_io h cmd cwd) (\<lambda>(returncode, stderr).
          if returncode = 0 then
            pbind (print_io h (check_mark @ '' '' @ cmd)) (\<lambda>_.
            return_value (PyBool True))
          else
            pbind (print_io h (cross_mark @ '' '' @ cmd)) (\<lambda>_.
            pbind (print_io h (''Error: '' @ stderr)) (\<lambda>_.
            return_value (PyBool False))))))
       (\<lambda>e.
        pbind (print_io h (cross_mark @ '' '' @ cmd @ '' - Exception: '' @ e)) (\<lambda>_.
        return_value (PyBool False)))"

text \<open>
  A scripted host for concrete runs: the world is the list of the children still to come
  (exit code 0 and no output once it is used up), the codec of the locale is ASCII, and
  standard output is either ASCII too or accepts every line.
\<close>

definition ascii :: "string \<Rightarrow> bool" where
  "ascii l = list_all (\<lambda>c. (of_char c :: nat) < 128) l"

definition ascii_decode :: "string \<Rightarrow> string + string" where
  "ascii_decode bs = (if ascii bs then Inr bs else Inl ''ordinal not in range(128)'')"

definition scripted_host :: "bool \<Rightarrow> (child list) host" where
  "scripted_host ascii_stdout =
     \<lparr>spawn = (\<lambda>cmd cwd w.
        case w of
          [] \<Rightarrow> (Exited 0 [] [], [])
        | c # rest \<Rightarrow> (c, rest)),
      decode = ascii_decode,
      stdout_error = (\<lambda>l w.
        if ascii_stdout \<and> \<not> ascii l then Some ''ordinal not in range(128)'' else None)\<rparr>"

section \<open>Properties\<close>

subsection \<open>Auxiliary facts\<close>

lemma py_and_bool: "py_and (PyBool a) (PyBool b) = PyBool (a \<and> b)"
  by (cases a; cases b) simp_all

lemma prints_simps [simp]:
  "prints [] = []" "prints (e # t) = printed e @ prints t" "prints (t @ u) = prints t @ prints u"
  by (simp_all add: prints_def)

lemma launched_simps [simp]:
  "launched [] = []" "launched (e # t) = launch e @ launched t"
  "launched (t @ u) = launched t @ launched u"
  by (simp_all add: launched_def)

lemma results_simps [simp]:
  "results [] = []" "results (e # t) = returned e @ results t"
  "results (t @ u) = results t @ results u"
  by (simp_all add: results_def)

lemma answers_simps [simp]:
  "answers [] = []" "answers (e # t) = answer e @ answers t"
  "answers (t @ u) = answers t @ answers u"
  by (simp_all add: answers_def)

lemmas line_defs = guidance_def error_summary_def newline_def check_mark_def cross_mark_def
  party_def book_def package_def test_tube_def hammer_def palette_def warning_sign_def
  backend_warning_def frontend_warning_def rocket_def banner_def

text \<open>The three ways through \<open>run_command\<close>.\<close>

lemma run_command_zero:
  assumes "subprocess_run os cmd cwd w = (CompletedProcess 0 err, w1)"
  shows "run_command os cmd cwd w =
     (Inr (PyBool True), w1,
      [Print (''Running: '' @ cmd), Run cmd cwd (CompletedProcess 0 err),
       Print (check_mark @ '' '' @ cmd), Return (PyBool True)])"
  using assms
  by (simp add: run_command_def try_except_Exception_def pbind_def print_line_def
      subprocess_call_def return_value_def)

lemma run_command_nonzero:
  assumes "subprocess_run os cmd cwd w = (CompletedProcess rc err, w1)" and "rc \<noteq> 0"
  shows "run_command os cmd cwd w =
     (Inr (PyBool False), w1,
      [Print (''Running: '' @ cmd), Run cmd cwd (CompletedProcess rc err),
       Print (cross_mark @ '' '' @ cmd), Print (''Error: '' @ err), Return (PyBool False)])"
  using assms
  by (simp add: run_command_def try_except_Exception_def pbind_def print_line_def
      subprocess_call_def return_value_def)

lemma run_command_raised:
  assumes "subprocess_run os cmd cwd w = (Raised e, w1)"
  shows "run_command os cmd cwd w =
     (Inr (PyBool False), w1,
      [Print (''Running: '' @ cmd), Run cmd cwd (Raised e),
       Print (cross_mark @ '' '' @ cmd @ '' - Exception: '' @ e), Return (PyBool False)])"
  using assms
  by (simp add: run_command_def try_except_Exception_def pbind_def print_line_def
      subprocess_call_def return_value_def)

text \<open>
  What one call of \<open>run_command\<close> leaves behind, whatever the operating system does: a
  \<open>bool\<close>, one launch, one returned value, no question about a path, and none of the
  lines that \<open>main\<close> prints itself.
\<close>

lemma run_command_summary:
  "\<exists>b w1 t. run_command os cmd cwd w = (Inr (PyBool b), w1, t) \<and>
     launched t = [(cmd, cwd)] \<and> results t = [PyBool b] \<and> answers t = [] \<and>
     (\<forall>l\<in>set (prints t). \<not> final_line l)"
proof (cases "subprocess_run os cmd cwd w")
  case (Pair out w1)
  show ?thesis
  proof (cases out)
    case (CompletedProcess rc err)
    show ?thesis
    proof (cases "rc = 0")
      case True
      with Pair CompletedProcess show ?thesis
        by (auto simp add: run_command_zero final_line_def line_defs)
    next
      case False
      with Pair CompletedProcess show ?thesis
        by (auto simp add: run_command_nonzero final_line_def line_defs)
    qed
  next
    case (Raised e)
    with Pair show ?thesis
      by (auto simp add: run_command_raised final_line_def line_defs)
  qed
qed

lemma and_run_command_summary:
  "\<exists>b w1 t. and_run_command os (PyBool a) cmd dir w = (Inr (PyBool (a \<and> b)), w1, t) \<and>
     launched t = [(cmd, Some dir)] \<and> results t = [PyBool b] \<and> answers t = [] \<and>
     (\<forall>l\<in>set (prints t). \<not> final_line l)"
proof -
  from run_command_summary [of os cmd "Some dir" w]
  obtain b w1 t where r: "run_command os cmd (Some dir) w = (Inr (PyBool b), w1, t)"
    and rest: "launched t = [(cmd, Some dir)]" "results t = [PyBool b]" "answers t = []"
      "\<forall>l\<in>set (prints t). \<not> final_line l"
    by blast
  have "and_run_command os (PyBool a) cmd dir w = (Inr (PyBool (a \<and> b)), w1, t)"
    by (simp add: and_run_command_def pbind_def r preturn_def py_and_bool)
  with rest show ?thesis by blast
qed

text \<open>The two blocks of \<open>main\<close>, then \<open>main\<close> as a whole.\<close>

lemma has_manifest_eval:
  "has_manifest os dir w =
     (Inr (path_exists os dir w \<and> path_exists os (joinpath dir ''package.json'') w), w,
      if path_exists os dir w
      then [Exists dir True, Exists (joinpath dir ''package.json'')
              (path_exists os (joinpath dir ''package.json'') w)]
      else [Exists dir False])"
  by (simp add: has_manifest_def pbind_def exists_call_def preturn_def)

lemma backend_unit_summary:
  "\<exists>d m bs w1 t.
     backend_unit os dir (PyBool a) w = (Inr (PyBool (a \<and> (\<forall>b\<in>set bs. b))), w1, t) \<and>
     answers t = manifest_answers dir d m \<and>
     launched t =
       (if d \<and> m
        then [(''npm install'', Some dir), (''npm test -- --run'', Some dir),
              (''npm run build'', Some dir)]
        else []) \<and>
     results t = map PyBool bs \<and> length bs = length (launched t) \<and>
     (\<not> (d \<and> m) \<longrightarrow> backend_warning \<in> set (prints t)) \<and>
     (\<forall>l\<in>set (prints t). final_line l \<longrightarrow> l = backend_warning \<and> \<not> (d \<and> m)) \<and>
     (d \<and> m) = (path_exists os dir w \<and> path_exists os (joinpath dir ''package.json'') w)"
proof (cases "path_exists os dir w \<and> path_exists os (joinpath dir ''package.json'') w")
  case True
  from and_run_command_summary [of os a "''npm install''" dir w]
  obtain b1 w1 t1 where
    s1: "and_run_command os (PyBool a) ''npm install'' dir w = (Inr (PyBool (a \<and> b1)), w1, t1)"
    and p1: "launched t1 = [(''npm install'', Some dir)]" "results t1 = [PyBool b1]"
      "answers t1 = []" "\<forall>l\<in>set (prints t1). \<not> final_line l"
    by blast
  from and_run_command_summary [of os "a \<and> b1" "''npm test -- --run''" dir w1]
  obtain b2 w2 t2 where
    s2: "and_run_command os (PyBool (a \<and> b1)) ''npm test -- --run'' dir w1 =
           (Inr (PyBool ((a \<and> b1) \<and> b2)), w2, t2)"
    and p2: "launched t2 = [(''npm test -- --run'', Some dir)]" "results t2 = [PyBool b2]"
      "answers t2 = []" "\<forall>l\<in>set (prints t2). \<not> final_line l"
    by blast
  from and_run_command_summary [of os "(a \<and> b1) \<and> b2" "''npm run build''" dir w2]
  obtain b3 w3 t3 where
    s3: "and_run_command os (PyBool ((a \<and> b1) \<and> b2)) ''npm run build'' dir w2 =
           (Inr (PyBool (((a \<and> b1) \<and> b2) \<and> b3)), w3, t3)"
    and p3: "launched t3 = [(''npm run build'', Some dir)]" "results t3 = [PyBool b3]"
      "answers t3 = []" "\<forall>l\<in>set (prints t3). \<not> final_line l"
    by blast
  let ?t = "[Exists dir True, Exists (joinpath dir ''package.json'') True,
             Print (newline @ package @ '' Installing backend dependencies...'')] @ t1 @
            [Print (newline @ test_tube @ '' Running backend tests...'')] @ t2 @
            [Print (newline @ hammer @ '' Building backend...'')] @ t3"
  have run: "backend_unit os dir (PyBool a) w =
      (Inr (PyBool (a \<and> (\<forall>b\<in>set [b1, b2, b3]. b))), w3, ?t)"
    using True s1 s2 s3
    by (simp add: backend_unit_def pbind_def has_manifest_eval print_line_def)
  have nf: "\<not> final_line (newline @ package @ '' Installing backend dependencies...'')"
    "\<not> final_line (newline @ test_tube @ '' Running backend tests...'')"
    "\<not> final_line (newline @ hammer @ '' Building backend...'')"
    by (simp_all add: final_line_def line_defs)
  show ?thesis
    apply (rule exI [of _ True], rule exI [of _ True], rule exI [of _ "[b1, b2, b3]"])
    apply (rule exI [of _ w3], rule exI [of _ ?t])
    using run p1 p2 p3 nf True
    apply (auto simp add: manifest_answers_def)
    done
next
  case False
  let ?t = "(if path_exists os dir w
             then [Exists dir True, Exists (joinpath dir ''package.json'') False]
             else [Exists dir False]) @ [Print backend_warning]"
  have run: "backend_unit os dir (PyBool a) w = (Inr (PyBool a), w, ?t)"
    using False
    by (auto simp add: backend_unit_def pbind_def has_manifest_eval print_line_def preturn_def)
  show ?thesis
    apply (rule exI [of _ "path_exists os dir w"], rule exI [of _ False], rule exI [of _ "[]"])
    apply (rule exI [of _ w], rule exI [of _ ?t])
    using run False
    apply (auto simp add: manifest_answers_def)
    done
qed

lemma frontend_unit_summary:
  "\<exists>d m bs w1 t.
     frontend_unit os dir (PyBool a) w = (Inr (PyBool (a \<and> (\<forall>b\<in>set bs. b))), w1, t) \<and>
     answers t = manifest_answers dir d m \<and>
     launched t =
       (if d \<and> m then [(''npm install'', Some dir), (''npm run build'', Some dir)] else []) \<and>
     results t = map PyBool bs \<and> length bs = length (launched t) \<and>
     (\<not> (d \<and> m) \<longrightarrow> frontend_warning \<in> set (prints t)) \<and>
     (\<forall>l\<in>set (prints t). final_line l \<longrightarrow> l = frontend_warning \<and> \<not> (d \<and> m)) \<and>
     (d \<and> m) = (path_exists os dir w \<and> path_exists os (joinpath dir ''package.json'') w)"
proof (cases "path_exists os dir w \<and> path_exists os (joinpath dir ''package.json'') w")
  case True
  from and_run_command_summary [of os a "''npm install''" dir w]
  obtain b1 w1 t1 where
    s1: "and_run_command os (PyBool a) ''npm install'' dir w = (Inr (PyBool (a \<and> b1)), w1, t1)"
    and p1: "launched t1 = [(''npm install'', Some dir)]" "results t1 = [PyBool b1]"
      "answers t1 = []" "\<forall>l\<in>set (prints t1). \<not> final_line l"
    by blast
  from and_run_command_summary [of os "a \<and> b1" "''npm run build''" dir w1]
  obtain b2 w2 t2 where
    s2: "and_run_command os (PyBool (a \<and> b1)) ''npm run build'' dir w1 =
           (Inr (PyBool ((a \<and> b1) \<and> b2)), w2, t2)"
    and p2: "launched t2 = [(''npm run build'', Some dir)]" "results t2 = [PyBool b2]"
      "answers t2 = []" "\<forall>l\<in>set (prints t2). \<not> final_line l"
    by blast
  let ?t = "[Exists dir True, Exists (joinpath dir ''package.json'') True,
             Print (newline @ palette @ '' Installing frontend dependencies...'')] @ t1 @
            [Print (newline @ hammer @ '' Building frontend...'')] @ t2"
  have run: "frontend_unit os dir (PyBool a) w =
      (Inr (PyBool (a \<and> (\<forall>b\<in>set [b1, b2]. b))), w2, ?t)"
    using True s1 s2
    by (simp add: frontend_unit_def pbind_def has_manifest_eval print_line_def)
  have nf: "\<not> final_line (newline @ palette @ '' Installing frontend dependencies...'')"
    "\<not> final_line (newline @ hammer @ '' Building frontend...'')"
    by (simp_all add: final_line_def line_defs)
  show ?thesis
    apply (rule exI [of _ True], rule exI [of _ True], rule exI [of _ "[b1, b2]"])
    apply (rule exI [of _ w2], rule exI [of _ ?t])
    using run p1 p2 nf True
    apply (auto simp add: manifest_answers_def)
    done
next
  case False
  let ?t = "(if path_exists os dir w
             then [Exists dir True, Exists (joinpath dir ''package.json'') False]
             else [Exists dir False]) @ [Print frontend_warning]"
  have run: "frontend_unit os dir (PyBool a) w = (Inr (PyBool a), w, ?t)"
    using False
    by (auto simp add: frontend_unit_def pbind_def has_manifest_eval print_line_def preturn_def)
  show ?thesis
    apply (rule exI [of _ "path_exists os dir w"], rule exI [of _ False], rule exI [of _ "[]"])
    apply (rule exI [of _ w], rule exI [of _ ?t])
    using run False
    apply (auto simp add: manifest_answers_def)
    done
qed

lemma run_units_summary:
  "\<exists>bd bm fd fm bs w1 t.
     run_units os root w = (Inr (PyBool (\<forall>b\<in>set bs. b)), w1, t) \<and>
     answers t = manifest_answers (joinpath root ''backend'') bd bm @
                 manifest_answers (joinpath root ''frontend'') fd fm \<and>
     launched t =
       (if bd \<and> bm
        then [(''npm install'', Some (joinpath root ''backend'')),
              (''npm test -- --run'', Some (joinpath root ''backend'')),
              (''npm run build'', Some (joinpath root ''backend''))]
        else []) @
       (if fd \<and> fm
        then [(''npm install'', Some (joinpath root ''frontend'')),
              (''npm run build'', Some (joinpath root ''frontend''))]
        else []) \<and>
     results t = map PyBool bs \<and> length bs = length (launched t) \<and>
     (\<not> (bd \<and> bm) \<longrightarrow> backend_warning \<in> set (prints t)) \<and>
     (\<not> (fd \<and> fm) \<longrightarrow> frontend_warning \<in> set (prints t)) \<and>
     (\<forall>l\<in>set (prints t). l \<notin> set guidance \<and> l \<noteq> error_summary) \<and>
     (bd \<and> bm) =
       (path_exists os (joinpath root ''backend'') w \<and>
        path_exists os (joinpath (joinpath root ''backend'') ''package.json'') w) \<and>
     (fd \<and> fm) =
       (path_exists os (joinpath root ''frontend'')
          (fst (snd (backend_unit os (joinpath root ''backend'') (PyBool True) w))) \<and>
        path_exists os (joinpath (joinpath root ''frontend'') ''package.json'')
          (fst (snd (backend_unit os (joinpath root ''backend'') (PyBool True) w))))"
proof -
  let ?b = "joinpath root ''backend''" and ?f = "joinpath root ''frontend''"
  from backend_unit_summary [of os ?b True w]
  obtain bd bm bs1 w1 t1 where
    s1: "backend_unit os ?b (PyBool True) w =
           (Inr (PyBool (True \<and> (\<forall>b\<in>set bs1. b))), w1, t1)"
    and a1: "answers t1 = manifest_answers ?b bd bm"
    and l1: "launched t1 =
       (if bd \<and> bm
        then [(''npm install'', Some ?b), (''npm test -- --run'', Some ?b),
              (''npm run build'', Some ?b)]
        else [])"
    and r1: "results t1 = map PyBool bs1" "length bs1 = length (launched t1)"
    and w1: "\<not> (bd \<and> bm) \<longrightarrow> backend_warning \<in> set (prints t1)"
    and f1: "\<forall>l\<in>set (prints t1). final_line l \<longrightarrow> l = backend_warning \<and> \<not> (bd \<and> bm)"
    and e1: "(bd \<and> bm) =
       (path_exists os ?b w \<and> path_exists os (joinpath ?b ''package.json'') w)"
    by blast
  from frontend_unit_summary [of os ?f "\<forall>b\<in>set bs1. b" w1]
  obtain fd fm bs2 w2 t2 where
    s2: "frontend_unit os ?f (PyBool (\<forall>b\<in>set bs1. b)) w1 =
           (Inr (PyBool ((\<forall>b\<in>set bs1. b) \<and> (\<forall>b\<in>set bs2. b))), w2, t2)"
    and a2: "answers t2 = manifest_answers ?f fd fm"
    and l2: "launched t2 =
       (if fd \<and> fm then [(''npm install'', Some ?f), (''npm run build'', Some ?f)] else [])"
    and r2: "results t2 = map PyBool bs2" "length bs2 = length (launched t2)"
    and w2: "\<not> (fd \<and> fm) \<longrightarrow> frontend_warning \<in> set (prints t2)"
    and f2: "\<forall>l\<in>set (prints t2). final_line l \<longrightarrow> l = frontend_warning \<and> \<not> (fd \<and> fm)"
    and e2: "(fd \<and> fm) =
       (path_exists os ?f w1 \<and> path_exists os (joinpath ?f ''package.json'') w1)"
    by blast
  have run: "run_units os root w = (Inr (PyBool (\<forall>b\<in>set (bs1 @ bs2). b)), w2, t1 @ t2)"
    using s1 s2 by (simp add: run_units_def pbind_def ball_Un)
  have nw: "backend_warning \<notin> set guidance" "backend_warning \<noteq> error_summary"
    "frontend_warning \<notin> set guidance" "frontend_warning \<noteq> error_summary"
    by (simp_all add: line_defs)
  have fin: "\<forall>l\<in>set (prints (t1 @ t2)). l \<notin> set guidance \<and> l \<noteq> error_summary"
  proof
    fix l assume "l \<in> set (prints (t1 @ t2))"
    then have "l \<in> set (prints t1) \<or> l \<in> set (prints t2)" by simp
    then have "final_line l \<longrightarrow> l = backend_warning \<or> l = frontend_warning"
      using f1 f2 by blast
    then show "l \<notin> set guidance \<and> l \<noteq> error_summary"
      using nw by (auto simp add: final_line_def)
  qed
  show ?thesis
    apply (rule exI [of _ bd], rule exI [of _ bm], rule exI [of _ fd], rule exI [of _ fm])
    apply (rule exI [of _ "bs1 @ bs2"], rule exI [of _ w2], rule exI [of _ "t1 @ t2"])
    using run a1 a2 l1 l2 r1 r2 w1 w2 fin e1 e2 s1
    apply simp
    done
qed

lemma finish_eval:
  "finish (PyBool v) w =
     (if v then (Inr (), w, map Print guidance)
      else (Inl (SystemExit 1), w, [Print error_summary]))"
  by (simp add: finish_def pbind_def print_line_def praise_def guidance_def)

lemma main_eval:
  assumes "run_units os root w = (Inr (PyBool v), w1, t)"
  shows "main os root w =
     (if v then (Inr (), w1, Print banner # t @ map Print guidance)
      else (Inl (SystemExit 1), w1, Print banner # t @ [Print error_summary]))"
  using assms by (simp add: main_def pbind_def print_line_def finish_eval)

lemma foldl_py_and:
  "foldl py_and (PyBool a) (map PyBool bs) = PyBool (a \<and> (\<forall>b\<in>set bs. b))"
  by (induction bs arbitrary: a) (simp_all add: py_and_bool)

text \<open>
  A whole run: the value of \<open>success\<close> at line 65, what \<open>main\<close> returns, and what the
  list of events holds, in terms of the four answers about the two directories.
\<close>

lemma manifest_facts:
  assumes "answers t = manifest_answers (joinpath root ''backend'') bd bm @
                       manifest_answers (joinpath root ''frontend'') fd fm"
  shows "manifest_seen (joinpath root ''backend'') t = (bd \<and> bm)"
    and "manifest_seen (joinpath root ''frontend'') t = (fd \<and> fm)"
    and "manifest_missing (joinpath root ''backend'') t = (\<not> (bd \<and> bm))"
    and "manifest_missing (joinpath root ''frontend'') t = (\<not> (fd \<and> fm))"
  using assms
  by (auto simp add: manifest_seen_def manifest_missing_def manifest_answers_def joinpath_def
      split: if_splits)

lemma main_trace_reads:
  assumes "main os root w = (r, w1, Print banner # t @ u)" and "\<forall>e\<in>set u. \<exists>l. e = Print l"
  shows "launched (trace_of (main os root w)) = launched t"
    and "results (trace_of (main os root w)) = results t"
    and "answers (trace_of (main os root w)) = answers t"
proof -
  have "launched u = [] \<and> results u = [] \<and> answers u = []"
    using assms(2) by (induction u) auto
  then show "launched (trace_of (main os root w)) = launched t"
    and "results (trace_of (main os root w)) = results t"
    and "answers (trace_of (main os root w)) = answers t"
    using assms(1) by (simp_all add: trace_of_def)
qed

lemma run_shape:
  obtains (shape) bd bm fd fm bs w1 t u where
    "run_units os root w = (Inr (PyBool (\<forall>b\<in>set bs. b)), w1, t)"
    and "main os root w =
       ((if (\<forall>b\<in>set bs. b) then Inr () else Inl (SystemExit 1)), w1, Print banner # t @ u)"
    and "u = (if (\<forall>b\<in>set bs. b) then map Print guidance else [Print error_summary])"
    and "answers t = manifest_answers (joinpath root ''backend'') bd bm @
                     manifest_answers (joinpath root ''frontend'') fd fm"
    and "launched t =
       (if bd \<and> bm
        then [(''npm install'', Some (joinpath root ''backend'')),
              (''npm test -- --run'', Some (joinpath root ''backend'')),
              (''npm run build'', Some (joinpath root ''backend''))]
        else []) @
       (if fd \<and> fm
        then [(''npm install'', Some (joinpath root ''frontend'')),
              (''npm run build'', Some (joinpath root ''frontend''))]
        else [])"
    and "results t = map PyBool bs" and "length bs = length (launched t)"
    and "\<not> (bd \<and> bm) \<longrightarrow> backend_warning \<in> set (prints t)"
    and "\<not> (fd \<and> fm) \<longrightarrow> frontend_warning \<in> set (prints t)"
    and "\<forall>l\<in>set (prints t). l \<notin> set guidance \<and> l \<noteq> error_summary"
    and "launched (trace_of (main os root w)) = launched t"
    and "results (trace_of (main os root w)) = results t"
    and "answers (trace_of (main os root w)) = answers t"
    and "prints (trace_of (main os root w)) = banner # prints t @ prints u"
    and "(bd \<and> bm) =
       (path_exists os (joinpath root ''backend'') w \<and>
        path_exists os (joinpath (joinpath root ''backend'') ''package.json'') w)"
    and "(fd \<and> fm) =
       (path_exists os (joinpath root ''frontend'')
          (fst (snd (backend_unit os (joinpath root ''backend'') (PyBool True) w))) \<and>
        path_exists os (joinpath (joinpath root ''frontend'') ''package.json'')
          (fst (snd (backend_unit os (joinpath root ''backend'') (PyBool True) w))))"
  using run_units_summary [of os root w]
  apply (elim exE conjE)
  subgoal premises p for bd bm fd fm bs w1 t
  proof -
    let ?u = "if (\<forall>b\<in>set bs. b) then map Print guidance else [Print error_summary]"
    have m: "main os root w =
        ((if (\<forall>b\<in>set bs. b) then Inr () else Inl (SystemExit 1)), w1, Print banner # t @ ?u)"
      using main_eval [OF p(2)] by auto
    have pu: "\<forall>e\<in>set ?u. \<exists>l. e = Print l" by auto
    have pr: "prints (trace_of (main os root w)) = banner # prints t @ prints ?u"
      using m by (simp add: trace_of_def)
    show ?thesis
      by (rule p(1) [OF p(2) m refl p(3-9) main_trace_reads [OF m pu] pr p(10-11)])
  qed
  done

text \<open>The definitions to unfold when a run on the scripted operating system is computed.\<close>

lemmas eval_defs = run_units_def backend_unit_def frontend_unit_def has_manifest_def
  and_run_command_def run_command_def try_except_Exception_def pbind_def print_line_def
  exists_call_def subprocess_call_def return_value_def preturn_def praise_def finish_def
  main_def scripted_def joinpath_def trace_of_def py_and_bool Let_def

subsection \<open>The claims\<close>

text \<open>
  What \<open>run_command\<close> returns, in terms of what \<open>subprocess.run\<close> gave it: \<open>True\<close>
  exactly when \<open>subprocess.run\<close> returned a process whose \<open>returncode\<close> is zero. For a
  process that was returned, the lines printed are the command and its mark and, when the
  \<open>returncode\<close> is not zero, also the captured standard error.
\<close>

lemma run_command_true_iff_exit_zero:
  "fst (run_command os cmd cwd w) =
     Inr (PyBool (\<exists>err. fst (subprocess_run os cmd cwd w) = CompletedProcess 0 err)) \<and>
   (\<forall>rc err. fst (subprocess_run os cmd cwd w) = CompletedProcess rc err \<longrightarrow>
      prints (snd (snd (run_command os cmd cwd w))) =
        (if rc = 0 then [''Running: '' @ cmd, check_mark @ '' '' @ cmd]
         else [''Running: '' @ cmd, cross_mark @ '' '' @ cmd, ''Error: '' @ err]))"
proof (cases "subprocess_run os cmd cwd w")
  case (Pair out w1)
  show ?thesis
  proof (cases out)
    case (CompletedProcess rc err)
    show ?thesis
    proof (cases "rc = 0")
      case True
      with Pair CompletedProcess show ?thesis
        by (simp add: run_command_zero)
    next
      case False
      with Pair CompletedProcess show ?thesis
        by (simp add: run_command_nonzero)
    qed
  next
    case (Raised e)
    with Pair show ?thesis
      by (simp add: run_command_raised)
  qed
qed

lemma run_command_true_iff_exit_zero_example:
  "fst (subprocess_run scripted ''npm test -- --run'' (Some [''backend''])
          \<lparr>files = [], pending = [CompletedProcess 2 ''boom'']\<rparr>) = CompletedProcess 2 ''boom'' \<and>
   fst (run_command scripted ''npm test -- --run'' (Some [''backend''])
          \<lparr>files = [], pending = [CompletedProcess 2 ''boom'']\<rparr>) = Inr (PyBool False) \<and>
   prints (snd (snd (run_command scripted ''npm test -- --run'' (Some [''backend''])
          \<lparr>files = [], pending = [CompletedProcess 2 ''boom'']\<rparr>))) =
     [''Running: npm test -- --run'', cross_mark @ '' npm test -- --run'', ''Error: boom'']"
  using run_command_true_iff_exit_zero [of scripted "''npm test -- --run''" "Some [''backend'']"
      "\<lparr>files = [], pending = [CompletedProcess 2 ''boom'']\<rparr>"]
  by (simp add: scripted_def)

text \<open>
  C1. In every run the value of \<open>success\<close> tested at line 65 is a \<open>bool\<close>; it is
  \<open>False\<close> exactly when one of the values returned by \<open>run_command\<close> during the run is
  false, that is, it is the conjunction of the values returned by the steps that were run,
  and each step that was launched returned exactly one value. The steps of a run of
  \<open>main\<close> are those of lines 36 to 63.
\<close>

theorem overall_success_false_iff_step_failed:
  "\<exists>v. fst (run_units os root w) = Inr (PyBool v) \<and>
     (\<not> v) = (\<exists>r\<in>set (results (trace_of (run_units os root w))). \<not> truthy r) \<and>
     v = (\<forall>r\<in>set (results (trace_of (run_units os root w))). truthy r) \<and>
     length (results (trace_of (run_units os root w))) =
       length (launched (trace_of (run_units os root w))) \<and>
     results (trace_of (main os root w)) = results (trace_of (run_units os root w))"
proof (cases rule: run_shape [of os root w])
  case (shape bd bm fd fm bs w1 t u)
  have "(\<forall>r\<in>set (results t). truthy r) = (\<forall>b\<in>set bs. b)"
    using shape(6) by auto
  then show ?thesis
    using shape(1,6,7,12) by (auto simp add: trace_of_def)
qed

theorem overall_success_false_iff_step_failed_witness:
  "fst (run_units scripted []
          \<lparr>files = [[''backend''], [''backend'', ''package.json'']],
           pending = [CompletedProcess 0 [], CompletedProcess 1 ''failed'']\<rparr>) =
     Inr (PyBool False) \<and>
   results (trace_of (run_units scripted []
          \<lparr>files = [[''backend''], [''backend'', ''package.json'']],
           pending = [CompletedProcess 0 [], CompletedProcess 1 ''failed'']\<rparr>)) =
     [PyBool True, PyBool False, PyBool True]"
  using overall_success_false_iff_step_failed [of scripted "[]"
      "\<lparr>files = [[''backend''], [''backend'', ''package.json'']],
        pending = [CompletedProcess 0 [], CompletedProcess 1 ''failed'']\<rparr>"]
  by (simp add: eval_defs)

lemma fold_and_all: "foldl (\<and>) a bs = (a \<and> (\<forall>b\<in>set bs. b))"
  by (induction bs arbitrary: a) auto

text \<open>
  C9. The accumulation by \<open>&=\<close> is the pure fold. The value of \<open>success\<close> at line 65
  is what \<open>&\<close> gives when it is applied from \<open>True\<close> to the values returned by
  \<open>run_command\<close>, in order; every one of these values is a \<open>bool\<close>, and on them the
  result is the \<open>bool\<close> that the logical and, folded from true over the truth values,
  gives. The last part says the same for any list of flags.
\<close>

theorem and_accumulation_is_fold:
  "fst (run_units os root w) =
     Inr (foldl py_and (PyBool True) (results (trace_of (run_units os root w)))) \<and>
   foldl py_and (PyBool True) (results (trace_of (run_units os root w))) =
     PyBool (fold_and (map truthy (results (trace_of (run_units os root w))))) \<and>
   (\<forall>r\<in>set (results (trace_of (run_units os root w))). \<exists>b. r = PyBool b) \<and>
   foldl py_and (PyBool True) (map PyBool flags) = PyBool (fold_and flags)"
proof (cases rule: run_shape [of os root w])
  case (shape bd bm fd fm bs w1 t u)
  have tr: "results (trace_of (run_units os root w)) = map PyBool bs"
    using shape(1,6) by (simp add: trace_of_def)
  have tm: "map truthy (map PyBool bs) = bs"
    by (induction bs) simp_all
  have v: "fst (run_units os root w) = Inr (PyBool (\<forall>b\<in>set bs. b))"
    using shape(1) by simp
  show ?thesis
    by (auto simp add: v tr tm foldl_py_and fold_and_def fold_and_all)
qed

theorem and_accumulation_is_fold_witness:
  "fst (run_units scripted []
          \<lparr>files = [[''frontend''], [''frontend'', ''package.json'']],
           pending = [CompletedProcess 0 [], Raised ''no shell'']\<rparr>) =
     Inr (foldl py_and (PyBool True) [PyBool True, PyBool False]) \<and>
   foldl py_and (PyBool True) [PyBool True, PyBool False] = PyBool (fold_and [True, False]) \<and>
   results (trace_of (run_units scripted []
          \<lparr>files = [[''frontend''], [''frontend'', ''package.json'']],
           pending = [CompletedProcess 0 [], Raised ''no shell'']\<rparr>)) =
     [PyBool True, PyBool False]"
  using and_accumulation_is_fold [of scripted "[]"
      "\<lparr>files = [[''frontend''], [''frontend'', ''package.json'']],
        pending = [CompletedProcess 0 [], Raised ''no shell'']\<rparr>" "[True, False]"]
  by (simp add: eval_defs fold_and_def)

text \<open>
  C7. The commands a run launches are, in this order, the three backend commands (install,
  test, build) in the backend directory when the backend manifest was seen, then the two
  frontend commands (install, build) in the frontend directory when the frontend manifest was
  seen, and nothing else; the backend directory is asked about before the frontend one.
\<close>

theorem fixed_units_and_steps:
  "launched (trace_of (main os root w)) =
     (if manifest_seen (joinpath root ''backend'') (trace_of (main os root w))
      then [(''npm install'', Some (joinpath root ''backend'')),
            (''npm test -- --run'', Some (joinpath root ''backend'')),
            (''npm run build'', Some (joinpath root ''backend''))]
      else []) @
     (if manifest_seen (joinpath root ''frontend'') (trace_of (main os root w))
      then [(''npm install'', Some (joinpath root ''frontend'')),
            (''npm run build'', Some (joinpath root ''frontend''))]
      else []) \<and>
   (\<exists>bd bm fd fm. answers (trace_of (main os root w)) =
      manifest_answers (joinpath root ''backend'') bd bm @
      manifest_answers (joinpath root ''frontend'') fd fm)"
proof (cases rule: run_shape [of os root w])
  case (shape bd bm fd fm bs w1 t u)
  have am: "answers (trace_of (main os root w)) =
      manifest_answers (joinpath root ''backend'') bd bm @
      manifest_answers (joinpath root ''frontend'') fd fm"
    using shape(4,13) by simp
  note mf = manifest_facts [OF am]
  show ?thesis
    using shape(5,11) am by (simp add: mf) blast
qed

theorem fixed_units_and_steps_witness:
  "launched (trace_of (main scripted []
      \<lparr>files = [[''backend''], [''backend'', ''package.json''],
                [''frontend''], [''frontend'', ''package.json'']],
       pending = []\<rparr>)) =
     [(''npm install'', Some [''backend'']), (''npm test -- --run'', Some [''backend'']),
      (''npm run build'', Some [''backend'']),
      (''npm install'', Some [''frontend'']), (''npm run build'', Some [''frontend''])]"
  using fixed_units_and_steps [of scripted "[]"
      "\<lparr>files = [[''backend''], [''backend'', ''package.json''],
                  [''frontend''], [''frontend'', ''package.json'']],
        pending = []\<rparr>"]
  by (simp add: eval_defs guidance_def manifest_seen_def)

text \<open>The commands launched in each of the two directories, by what was seen there.\<close>

lemma launched_in_each:
  assumes "launched t =
       (if b
        then [(''npm install'', Some (joinpath root ''backend'')),
              (''npm test -- --run'', Some (joinpath root ''backend'')),
              (''npm run build'', Some (joinpath root ''backend''))]
        else []) @
       (if f
        then [(''npm install'', Some (joinpath root ''frontend'')),
              (''npm run build'', Some (joinpath root ''frontend''))]
        else [])"
  shows "launched_in (joinpath root ''backend'') t =
           (if b then [''npm install'', ''npm test -- --run'', ''npm run build''] else [])"
    and "launched_in (joinpath root ''frontend'') t =
           (if f then [''npm install'', ''npm run build''] else [])"
  using assms by (simp_all add: launched_in_def joinpath_def)

text \<open>
  C10. Each unit is run as a whole or not at all: three commands are launched in the backend
  directory when its manifest was seen and none otherwise, two in the frontend directory
  when its manifest was seen and none otherwise; every launch is one of these, so a run
  launches 0, 2, 3 or 5 commands.
\<close>

theorem step_count_all_or_nothing:
  "length (launched_in (joinpath root ''backend'') (trace_of (main os root w))) =
     (if manifest_seen (joinpath root ''backend'') (trace_of (main os root w)) then 3 else 0) \<and>
   length (launched_in (joinpath root ''frontend'') (trace_of (main os root w))) =
     (if manifest_seen (joinpath root ''frontend'') (trace_of (main os root w)) then 2 else 0) \<and>
   length (launched (trace_of (main os root w))) =
     length (launched_in (joinpath root ''backend'') (trace_of (main os root w))) +
     length (launched_in (joinpath root ''frontend'') (trace_of (main os root w))) \<and>
   length (launched (trace_of (main os root w))) \<in> {0, 2, 3, 5}"
proof (cases rule: run_shape [of os root w])
  case (shape bd bm fd fm bs w1 t u)
  have am: "answers (trace_of (main os root w)) =
      manifest_answers (joinpath root ''backend'') bd bm @
      manifest_answers (joinpath root ''frontend'') fd fm"
    using shape(4,13) by simp
  note mf = manifest_facts [OF am]
  have lm: "launched (trace_of (main os root w)) =
       (if bd \<and> bm
        then [(''npm install'', Some (joinpath root ''backend'')),
              (''npm test -- --run'', Some (joinpath root ''backend'')),
              (''npm run build'', Some (joinpath root ''backend''))]
        else []) @
       (if fd \<and> fm
        then [(''npm install'', Some (joinpath root ''frontend'')),
              (''npm run build'', Some (joinpath root ''frontend''))]
        else [])"
    using shape(5,11) by simp
  note li = launched_in_each [OF lm]
  show ?thesis
    by (simp add: li mf lm)
qed

theorem step_count_all_or_nothing_witness:
  "length (launched (trace_of (main scripted []
      \<lparr>files = [[''backend''], [''frontend''], [''frontend'', ''package.json'']],
       pending = []\<rparr>))) = 2 \<and>
   length (launched_in [''backend''] (trace_of (main scripted []
      \<lparr>files = [[''backend''], [''frontend''], [''frontend'', ''package.json'']],
       pending = []\<rparr>))) = 0 \<and>
   length (launched_in [''frontend''] (trace_of (main scripted []
      \<lparr>files = [[''backend''], [''frontend''], [''frontend'', ''package.json'']],
       pending = []\<rparr>))) = 2"
  using step_count_all_or_nothing [of "[]" scripted
      "\<lparr>files = [[''backend''], [''frontend''], [''frontend'', ''package.json'']],
        pending = []\<rparr>"]
  by (simp add: eval_defs guidance_def manifest_seen_def launched_in_def)

text \<open>A block entered where its manifest exists launches all its commands.\<close>

lemma backend_unit_present:
  assumes "path_exists os dir w" and "path_exists os (joinpath dir ''package.json'') w"
  shows "launched (trace_of (backend_unit os dir (PyBool a) w)) =
           [(''npm install'', Some dir), (''npm test -- --run'', Some dir),
            (''npm run build'', Some dir)]"
    and "length (results (trace_of (backend_unit os dir (PyBool a) w))) = 3"
  using backend_unit_summary [of os dir a w] assms
  by (auto simp add: trace_of_def)

lemma frontend_unit_present:
  assumes "path_exists os dir w" and "path_exists os (joinpath dir ''package.json'') w"
  shows "launched (trace_of (frontend_unit os dir (PyBool a) w)) =
           [(''npm install'', Some dir), (''npm run build'', Some dir)]"
    and "length (results (trace_of (frontend_unit os dir (PyBool a) w))) = 2"
  using frontend_unit_summary [of os dir a w] assms
  by (auto simp add: trace_of_def)

text \<open>
  C2. A unit whose manifest is present runs all its commands, in the order in which
  \<open>main\<close> lists them, whatever the earlier ones returned. For each of the two blocks of
  \<open>main\<close>, entered with any \<open>bool\<close> in \<open>success\<close> in a world where the directory and its
  \<open>package.json\<close> exist: the backend block launches install, test and build in that
  directory and gets three values back, the frontend block launches install and build and
  gets two. For a whole run: when the backend manifest exists where \<open>main\<close> starts, the
  three backend commands are launched in the backend directory, and when the frontend
  manifest exists in the world that the backend block leaves, the two frontend commands are
  launched in the frontend directory. Every launch is followed by a returned value. The
  operating system, and so the outcome of every step, is arbitrary.
\<close>

theorem steps_run_without_short_circuit:
  "(path_exists os dir w0 \<and> path_exists os (joinpath dir ''package.json'') w0 \<longrightarrow>
      launched (trace_of (backend_unit os dir (PyBool a) w0)) =
        [(''npm install'', Some dir), (''npm test -- --run'', Some dir),
         (''npm run build'', Some dir)] \<and>
      length (results (trace_of (backend_unit os dir (PyBool a) w0))) = 3 \<and>
      launched (trace_of (frontend_unit os dir (PyBool a) w0)) =
        [(''npm install'', Some dir), (''npm run build'', Some dir)] \<and>
      length (results (trace_of (frontend_unit os dir (PyBool a) w0))) = 2) \<and>
   (path_exists os (joinpath root ''backend'') w \<and>
    path_exists os (joinpath (joinpath root ''backend'') ''package.json'') w \<longrightarrow>
      launched_in (joinpath root ''backend'') (trace_of (main os root w)) =
        [''npm install'', ''npm test -- --run'', ''npm run build'']) \<and>
   (path_exists os (joinpath root ''frontend'')
      (fst (snd (backend_unit os (joinpath root ''backend'') (PyBool True) w))) \<and>
    path_exists os (joinpath (joinpath root ''frontend'') ''package.json'')
      (fst (snd (backend_unit os (joinpath root ''backend'') (PyBool True) w))) \<longrightarrow>
      launched_in (joinpath root ''frontend'') (trace_of (main os root w)) =
        [''npm install'', ''npm run build'']) \<and>
   length (results (trace_of (main os root w))) = length (launched (trace_of (main os root w)))"
proof (cases rule: run_shape [of os root w])
  case (shape bd bm fd fm bs w1 t u)
  have lm: "launched (trace_of (main os root w)) =
       (if bd \<and> bm
        then [(''npm install'', Some (joinpath root ''backend'')),
              (''npm test -- --run'', Some (joinpath root ''backend'')),
              (''npm run build'', Some (joinpath root ''backend''))]
        else []) @
       (if fd \<and> fm
        then [(''npm install'', Some (joinpath root ''frontend'')),
              (''npm run build'', Some (joinpath root ''frontend''))]
        else [])"
    using shape(5,11) by simp
  note li = launched_in_each [OF lm]
  have len: "length (results (trace_of (main os root w))) =
      length (launched (trace_of (main os root w)))"
    using shape(6,7,11,12) by simp
  have b: "path_exists os (joinpath root ''backend'') w \<and>
      path_exists os (joinpath (joinpath root ''backend'') ''package.json'') w \<longrightarrow>
      launched_in (joinpath root ''backend'') (trace_of (main os root w)) =
        [''npm install'', ''npm test -- --run'', ''npm run build'']"
    using shape(15) by (simp add: li)
  have f: "path_exists os (joinpath root ''frontend'')
      (fst (snd (backend_unit os (joinpath root ''backend'') (PyBool True) w))) \<and>
    path_exists os (joinpath (joinpath root ''frontend'') ''package.json'')
      (fst (snd (backend_unit os (joinpath root ''backend'') (PyBool True) w))) \<longrightarrow>
      launched_in (joinpath root ''frontend'') (trace_of (main os root w)) =
        [''npm install'', ''npm run build'']"
    using shape(16) by (simp add: li)
  show ?thesis
    using b f len
    by (simp add: backend_unit_present frontend_unit_present)
qed

theorem steps_run_without_short_circuit_witness:
  "path_exists scripted [''backend'']
      \<lparr>files = [[''backend''], [''backend'', ''package.json'']],
       pending = [CompletedProcess 1 ''install failed'']\<rparr> \<and>
   path_exists scripted [''backend'', ''package.json'']
      \<lparr>files = [[''backend''], [''backend'', ''package.json'']],
       pending = [CompletedProcess 1 ''install failed'']\<rparr> \<and>
   results (trace_of (main scripted []
      \<lparr>files = [[''backend''], [''backend'', ''package.json'']],
       pending = [CompletedProcess 1 ''install failed'']\<rparr>)) =
     [PyBool False, PyBool True, PyBool True] \<and>
   launched_in [''backend''] (trace_of (main scripted []
      \<lparr>files = [[''backend''], [''backend'', ''package.json'']],
       pending = [CompletedProcess 1 ''install failed'']\<rparr>)) =
     [''npm install'', ''npm test -- --run'', ''npm run build''] \<and>
   launched (trace_of (backend_unit scripted [''backend''] (PyBool False)
      \<lparr>files = [[''backend''], [''backend'', ''package.json'']],
       pending = [CompletedProcess 1 ''install failed'']\<rparr>)) =
     [(''npm install'', Some [''backend'']), (''npm test -- --run'', Some [''backend'']),
      (''npm run build'', Some [''backend''])]"
  using steps_run_without_short_circuit [of scripted "[''backend'']"
      "\<lparr>files = [[''backend''], [''backend'', ''package.json'']],
        pending = [CompletedProcess 1 ''install failed'']\<rparr>" False "[]"
      "\<lparr>files = [[''backend''], [''backend'', ''package.json'']],
        pending = [CompletedProcess 1 ''install failed'']\<rparr>"]
  by (simp add: eval_defs guidance_def launched_in_def)

text \<open>What a run of \<open>main\<close> launches, from what it saw of the two manifests.\<close>

lemma launched_main:
  "launched (trace_of (main os root w)) =
     (if manifest_seen (joinpath root ''backend'') (trace_of (main os root w))
      then [(''npm install'', Some (joinpath root ''backend'')),
            (''npm test -- --run'', Some (joinpath root ''backend'')),
            (''npm run build'', Some (joinpath root ''backend''))]
      else []) @
     (if manifest_seen (joinpath root ''frontend'') (trace_of (main os root w))
      then [(''npm install'', Some (joinpath root ''frontend'')),
            (''npm run build'', Some (joinpath root ''frontend''))]
      else [])"
proof (cases rule: run_shape [of os root w])
  case (shape bd bm fd fm bs w1 t u)
  have am: "answers (trace_of (main os root w)) =
      manifest_answers (joinpath root ''backend'') bd bm @
      manifest_answers (joinpath root ''frontend'') fd fm"
    using shape(4,13) by simp
  note mf = manifest_facts [OF am]
  show ?thesis
    using shape(5,11) by (simp add: mf)
qed

text \<open>
  C8. Two runs from the same project root, on any two operating systems and worlds, that saw
  the same about the two manifests launch the same commands in the same directories in the
  same order: nothing else about the file system or about the outcomes of the steps decides
  what is launched.
\<close>

theorem launches_determined_by_manifests:
  assumes "manifest_seen (joinpath root ''backend'') (trace_of (main os1 root w1)) =
           manifest_seen (joinpath root ''backend'') (trace_of (main os2 root w2))"
    and "manifest_seen (joinpath root ''frontend'') (trace_of (main os1 root w1)) =
         manifest_seen (joinpath root ''frontend'') (trace_of (main os2 root w2))"
  shows "launched (trace_of (main os1 root w1)) = launched (trace_of (main os2 root w2))"
  unfolding launched_main [of os1 root w1] launched_main [of os2 root w2]
  using assms by simp

theorem launches_determined_by_manifests_witness:
  "manifest_seen [''backend''] (trace_of (main scripted []
      \<lparr>files = [[''backend''], [''backend'', ''package.json'']],
       pending = [CompletedProcess 1 ''install failed'']\<rparr>)) =
   manifest_seen [''backend''] (trace_of (main scripted []
      \<lparr>files = [[''backend''], [''backend'', ''package.json''], [''frontend'']],
       pending = [Raised ''no shell'', CompletedProcess 0 [], CompletedProcess 3 []]\<rparr>)) \<and>
   manifest_seen [''frontend''] (trace_of (main scripted []
      \<lparr>files = [[''backend''], [''backend'', ''package.json'']],
       pending = [CompletedProcess 1 ''install failed'']\<rparr>)) =
   manifest_seen [''frontend''] (trace_of (main scripted []
      \<lparr>files = [[''backend''], [''backend'', ''package.json''], [''frontend'']],
       pending = [Raised ''no shell'', CompletedProcess 0 [], CompletedProcess 3 []]\<rparr>)) \<and>
   launched (trace_of (main scripted []
      \<lparr>files = [[''backend''], [''backend'', ''package.json'']],
       pending = [CompletedProcess 1 ''install failed'']\<rparr>)) =
   launched (trace_of (main scripted []
      \<lparr>files = [[''backend''], [''backend'', ''package.json''], [''frontend'']],
       pending = [Raised ''no shell'', CompletedProcess 0 [], CompletedProcess 3 []]\<rparr>))"
proof -
  let ?w1 = "\<lparr>files = [[''backend''], [''backend'', ''package.json'']],
       pending = [CompletedProcess 1 ''install failed'']\<rparr>"
  let ?w2 = "\<lparr>files = [[''backend''], [''backend'', ''package.json''], [''frontend'']],
       pending = [Raised ''no shell'', CompletedProcess 0 [], CompletedProcess 3 []]\<rparr>"
  have b: "manifest_seen (joinpath [] ''backend'') (trace_of (main scripted [] ?w1)) =
           manifest_seen (joinpath [] ''backend'') (trace_of (main scripted [] ?w2))"
    by (simp add: eval_defs guidance_def manifest_seen_def)
  have f: "manifest_seen (joinpath [] ''frontend'') (trace_of (main scripted [] ?w1)) =
           manifest_seen (joinpath [] ''frontend'') (trace_of (main scripted [] ?w2))"
    by (simp add: eval_defs guidance_def manifest_seen_def)
  show ?thesis
    using b f launches_determined_by_manifests [OF b f] by (simp add: joinpath_def)
qed

text \<open>The \<open>else\<close> branch of each block: nothing but the warning, and \<open>success\<close> as it was.\<close>

lemma backend_unit_skipped:
  assumes "\<not> (path_exists os dir w \<and> path_exists os (joinpath dir ''package.json'') w)"
  shows "backend_unit os dir success w =
     (Inr success, w,
      (if path_exists os dir w
       then [Exists dir True, Exists (joinpath dir ''package.json'') False]
       else [Exists dir False]) @ [Print backend_warning])"
  using assms
  by (auto simp add: backend_unit_def pbind_def has_manifest_eval print_line_def preturn_def)

lemma frontend_unit_skipped:
  assumes "\<not> (path_exists os dir w \<and> path_exists os (joinpath dir ''package.json'') w)"
  shows "frontend_unit os dir success w =
     (Inr success, w,
      (if path_exists os dir w
       then [Exists dir True, Exists (joinpath dir ''package.json'') False]
       else [Exists dir False]) @ [Print frontend_warning])"
  using assms
  by (auto simp add: frontend_unit_def pbind_def has_manifest_eval print_line_def preturn_def)

text \<open>
  C5. A unit whose directory or whose \<open>package.json\<close> is absent is skipped. For each of
  the two blocks of \<open>main\<close>, entered with any value of \<open>success\<close> in a world where the
  directory or the manifest does not exist: the block leaves \<open>success\<close> and the world as
  they were, launches nothing, gets no value from \<open>run_command\<close> and prints its warning
  and nothing else. For a whole run: a unit whose manifest was found missing has no launch
  in its directory and its warning is printed, and when both are missing \<open>success\<close> is
  still \<open>True\<close> at line 65.
\<close>

theorem missing_manifest_skips_unit:
  "(\<not> (path_exists os dir w0 \<and> path_exists os (joinpath dir ''package.json'') w0) \<longrightarrow>
      fst (backend_unit os dir success w0) = Inr success \<and>
      fst (snd (backend_unit os dir success w0)) = w0 \<and>
      launched (trace_of (backend_unit os dir success w0)) = [] \<and>
      results (trace_of (backend_unit os dir success w0)) = [] \<and>
      prints (trace_of (backend_unit os dir success w0)) = [backend_warning] \<and>
      fst (frontend_unit os dir success w0) = Inr success \<and>
      fst (snd (frontend_unit os dir success w0)) = w0 \<and>
      launched (trace_of (frontend_unit os dir success w0)) = [] \<and>
      results (trace_of (frontend_unit os dir success w0)) = [] \<and>
      prints (trace_of (frontend_unit os dir success w0)) = [frontend_warning]) \<and>
   (manifest_missing (joinpath root ''backend'') (trace_of (main os root w)) \<longrightarrow>
      launched_in (joinpath root ''backend'') (trace_of (main os root w)) = [] \<and>
      backend_warning \<in> set (prints (trace_of (main os root w)))) \<and>
   (manifest_missing (joinpath root ''frontend'') (trace_of (main os root w)) \<longrightarrow>
      launched_in (joinpath root ''frontend'') (trace_of (main os root w)) = [] \<and>
      frontend_warning \<in> set (prints (trace_of (main os root w)))) \<and>
   (manifest_missing (joinpath root ''backend'') (trace_of (main os root w)) \<and>
    manifest_missing (joinpath root ''frontend'') (trace_of (main os root w)) \<longrightarrow>
      fst (run_units os root w) = Inr (PyBool True) \<and>
      launched (trace_of (main os root w)) = [] \<and>
      fst (main os root w) = Inr ())"
proof (cases rule: run_shape [of os root w])
  case (shape bd bm fd fm bs w1 t u)
  have am: "answers (trace_of (main os root w)) =
      manifest_answers (joinpath root ''backend'') bd bm @
      manifest_answers (joinpath root ''frontend'') fd fm"
    using shape(4,13) by simp
  note mf = manifest_facts [OF am]
  have lm: "launched (trace_of (main os root w)) =
       (if bd \<and> bm
        then [(''npm install'', Some (joinpath root ''backend'')),
              (''npm test -- --run'', Some (joinpath root ''backend'')),
              (''npm run build'', Some (joinpath root ''backend''))]
        else []) @
       (if fd \<and> fm
        then [(''npm install'', Some (joinpath root ''frontend'')),
              (''npm run build'', Some (joinpath root ''frontend''))]
        else [])"
    using shape(5,11) by simp
  note li = launched_in_each [OF lm]
  have unit: "\<not> (path_exists os dir w0 \<and> path_exists os (joinpath dir ''package.json'') w0) \<longrightarrow>
      fst (backend_unit os dir success w0) = Inr success \<and>
      fst (snd (backend_unit os dir success w0)) = w0 \<and>
      launched (trace_of (backend_unit os dir success w0)) = [] \<and>
      results (trace_of (backend_unit os dir success w0)) = [] \<and>
      prints (trace_of (backend_unit os dir success w0)) = [backend_warning] \<and>
      fst (frontend_unit os dir success w0) = Inr success \<and>
      fst (snd (frontend_unit os dir success w0)) = w0 \<and>
      launched (trace_of (frontend_unit os dir success w0)) = [] \<and>
      results (trace_of (frontend_unit os dir success w0)) = [] \<and>
      prints (trace_of (frontend_unit os dir success w0)) = [frontend_warning]"
    by (simp add: backend_unit_skipped frontend_unit_skipped trace_of_def)
  have bw: "\<not> (bd \<and> bm) \<longrightarrow> backend_warning \<in> set (prints (trace_of (main os root w)))"
    using shape(8,14) by simp
  have fw: "\<not> (fd \<and> fm) \<longrightarrow> frontend_warning \<in> set (prints (trace_of (main os root w)))"
    using shape(9,14) by simp
  have none: "\<not> (bd \<and> bm) \<and> \<not> (fd \<and> fm) \<longrightarrow>
      fst (run_units os root w) = Inr (PyBool True) \<and>
      launched (trace_of (main os root w)) = [] \<and> fst (main os root w) = Inr ()"
  proof
    assume a: "\<not> (bd \<and> bm) \<and> \<not> (fd \<and> fm)"
    then have "launched t = []" using shape(5) by simp
    then have "bs = []" using shape(7) by simp
    then show "fst (run_units os root w) = Inr (PyBool True) \<and>
      launched (trace_of (main os root w)) = [] \<and> fst (main os root w) = Inr ()"
      using shape(1,2) a lm by simp
  qed
  show ?thesis
    using unit bw fw none by (simp add: mf li)
qed

theorem missing_manifest_skips_unit_witness:
  "manifest_missing [''backend''] (trace_of (main scripted []
      \<lparr>files = [[''backend''], [''frontend''], [''frontend'', ''package.json'']],
       pending = []\<rparr>)) \<and>
   launched_in [''backend''] (trace_of (main scripted []
      \<lparr>files = [[''backend''], [''frontend''], [''frontend'', ''package.json'']],
       pending = []\<rparr>)) = [] \<and>
   backend_warning \<in> set (prints (trace_of (main scripted []
      \<lparr>files = [[''backend''], [''frontend''], [''frontend'', ''package.json'']],
       pending = []\<rparr>))) \<and>
   fst (backend_unit scripted [''backend''] (PyBool False)
      \<lparr>files = [[''backend''], [''frontend''], [''frontend'', ''package.json'']],
       pending = []\<rparr>) = Inr (PyBool False) \<and>
   fst (main scripted []
      \<lparr>files = [[''backend''], [''frontend''], [''frontend'', ''package.json'']],
       pending = []\<rparr>) = Inr ()"
  using missing_manifest_skips_unit [of scripted "[''backend'']"
      "\<lparr>files = [[''backend''], [''frontend''], [''frontend'', ''package.json'']],
        pending = []\<rparr>" "PyBool False" "[]"
      "\<lparr>files = [[''backend''], [''frontend''], [''frontend'', ''package.json'']],
        pending = []\<rparr>"]
  by (simp add: eval_defs guidance_def manifest_missing_def launched_in_def)

text \<open>The lines of the two endings do not meet, and the banner is neither.\<close>

lemma ending_lines:
  "error_summary \<notin> set guidance" "banner \<notin> set guidance" "banner \<noteq> error_summary"
  by (simp_all add: line_defs)

text \<open>
  C3. In every run \<open>success\<close> at line 65 is a \<open>bool\<close>. When it is \<open>True\<close>, \<open>main\<close>
  returns, the exit status is 0, the output ends with the five lines of guidance and the
  error summary is not printed. When it is \<open>False\<close>, \<open>main\<close> ends by \<open>sys.exit(1)\<close>,
  the exit status is 1, the output ends with the error summary and no line of the guidance
  is printed anywhere.
\<close>

theorem exit_status_follows_success:
  "\<exists>v. fst (run_units os root w) = Inr (PyBool v) \<and>
     (v \<longrightarrow>
        fst (main os root w) = Inr () \<and> exit_status (fst (main os root w)) = 0 \<and>
        (\<exists>p. prints (trace_of (main os root w)) = p @ guidance) \<and>
        error_summary \<notin> set (prints (trace_of (main os root w)))) \<and>
     (\<not> v \<longrightarrow>
        fst (main os root w) = Inl (SystemExit 1) \<and> exit_status (fst (main os root w)) = 1 \<and>
        (\<exists>p. prints (trace_of (main os root w)) = p @ [error_summary]) \<and>
        (\<forall>g\<in>set guidance. g \<notin> set (prints (trace_of (main os root w)))))"
proof (cases rule: run_shape [of os root w])
  case (shape bd bm fd fm bs w1 t u)
  let ?v = "\<forall>b\<in>set bs. b"
  have pg: "prints (map Print guidance) = guidance"
    by (simp add: guidance_def)
  have v: "fst (run_units os root w) = Inr (PyBool ?v)"
    using shape(1) by simp
  have good: "?v \<longrightarrow>
        fst (main os root w) = Inr () \<and> exit_status (fst (main os root w)) = 0 \<and>
        (\<exists>p. prints (trace_of (main os root w)) = p @ guidance) \<and>
        error_summary \<notin> set (prints (trace_of (main os root w)))"
  proof
    assume a: ?v
    have u: "u = map Print guidance" using shape(3) a by auto
    have m: "fst (main os root w) = Inr ()" using shape(2) a by auto
    have p: "prints (trace_of (main os root w)) = (banner # prints t) @ guidance"
      using shape(14) by (simp add: u pg)
    have e: "error_summary \<notin> set (prints (trace_of (main os root w)))"
      using shape(10) ending_lines by (auto simp add: p)
    show "fst (main os root w) = Inr () \<and> exit_status (fst (main os root w)) = 0 \<and>
        (\<exists>p. prints (trace_of (main os root w)) = p @ guidance) \<and>
        error_summary \<notin> set (prints (trace_of (main os root w)))"
      using m p e by (simp only: exit_status.simps) blast
  qed
  have bad: "\<not> ?v \<longrightarrow>
        fst (main os root w) = Inl (SystemExit 1) \<and> exit_status (fst (main os root w)) = 1 \<and>
        (\<exists>p. prints (trace_of (main os root w)) = p @ [error_summary]) \<and>
        (\<forall>g\<in>set guidance. g \<notin> set (prints (trace_of (main os root w))))"
  proof
    assume a: "\<not> ?v"
    have u: "u = [Print error_summary]" using shape(3) a by auto
    have m: "fst (main os root w) = Inl (SystemExit 1)" using shape(2) a by auto
    have p: "prints (trace_of (main os root w)) = (banner # prints t) @ [error_summary]"
      using shape(14) by (simp add: u)
    have g: "\<forall>g\<in>set guidance. g \<notin> set (prints (trace_of (main os root w)))"
      using shape(10) ending_lines by (auto simp add: p)
    show "fst (main os root w) = Inl (SystemExit 1) \<and> exit_status (fst (main os root w)) = 1 \<and>
        (\<exists>p. prints (trace_of (main os root w)) = p @ [error_summary]) \<and>
        (\<forall>g\<in>set guidance. g \<notin> set (prints (trace_of (main os root w))))"
      using m p g by (simp only: exit_status.simps) auto
  qed
  show ?thesis
    using v good bad by blast
qed

theorem exit_status_follows_success_witness:
  "fst (run_units scripted []
      \<lparr>files = [[''frontend''], [''frontend'', ''package.json'']],
       pending = [CompletedProcess 0 [], CompletedProcess 2 ''build failed'']\<rparr>) =
     Inr (PyBool False) \<and>
   fst (main scripted []
      \<lparr>files = [[''frontend''], [''frontend'', ''package.json'']],
       pending = [CompletedProcess 0 [], CompletedProcess 2 ''build failed'']\<rparr>) =
     Inl (SystemExit 1) \<and>
   exit_status (fst (main scripted []
      \<lparr>files = [[''frontend''], [''frontend'', ''package.json'']],
       pending = [CompletedProcess 0 [], CompletedProcess 2 ''build failed'']\<rparr>)) = 1 \<and>
   last (prints (trace_of (main scripted []
      \<lparr>files = [[''frontend''], [''frontend'', ''package.json'']],
       pending = [CompletedProcess 0 [], CompletedProcess 2 ''build failed'']\<rparr>))) =
     error_summary"
  using exit_status_follows_success [of scripted "[]"
      "\<lparr>files = [[''frontend''], [''frontend'', ''package.json'']],
        pending = [CompletedProcess 0 [], CompletedProcess 2 ''build failed'']\<rparr>"]
  by (simp add: eval_defs)





text \<open>
  C6. The claim is that \<open>run_command\<close> returns \<open>True\<close> exactly when the exit code of the
  process is zero. The code departs from it: here the child of \<open>npm test -- --run\<close> exits
  with code 0 after writing the byte 0xFF to its standard error; \<open>subprocess.run\<close> raises
  when it decodes that byte, line 28 catches the exception, and \<open>run_command\<close> prints the
  failure line of line 29 and returns \<open>False\<close>.
\<close>

theorem run_command_false_at_exit_zero:
  "fst (spawn (scripted_host False) ''npm test -- --run'' (Some [''backend''])
          [Exited 0 [] [CHR 0xFF]]) = Exited 0 [] [CHR 0xFF] \<and>
   fst (run_command_io (scripted_host False) ''npm test -- --run'' (Some [''backend''])
          [Exited 0 [] [CHR 0xFF]]) = Inr (PyBool False) \<and>
   prints (trace_of (run_command_io (scripted_host False) ''npm test -- --run''
          (Some [''backend'']) [Exited 0 [] [CHR 0xFF]])) =
     [''Running: npm test -- --run'',
      cross_mark @ '' npm test -- --run - Exception: ordinal not in range(128)'']"
  by (simp add: run_command_io_def try_except_Exception_def pbind_def print_io_def
      subprocess_io_def run_text_def return_value_def scripted_host_def ascii_decode_def
      ascii_def trace_of_def)




end
